theory Spec2Isabelle
  imports Main
begin

section \<open>Python values used by both programs\<close>

text \<open>
  A Python \<^verbatim>\<open>str\<close> is a sequence of Unicode code points, and \<^verbatim>\<open>len\<close> counts code
  points. The model keeps that: a string is a list of code points, a literal of the source is
  written \<open>py ''...''\<close> when it is ASCII and as its code points otherwise.
\<close>

type_synonym pystr = "nat list"

definition py :: "string \<Rightarrow> pystr" where
  "py s = map of_char s"

text \<open>An external call (network, file system, library) either raises or returns.\<close>

datatype 'a outcome = Raises | Returns 'a

text \<open>
  \<^verbatim>\<open>xs[k:]\<close>: a negative start counts from the end and is clipped at the beginning of
  the list, a start beyond the end gives the empty list.
\<close>

definition slice_from :: "int \<Rightarrow> 'a list \<Rightarrow> 'a list" where
  "slice_from k xs =
     (if k < 0 then drop (nat (int (length xs) + k)) xs else drop (nat k) xs)"

text \<open>\<^verbatim>\<open>s.startswith(p)\<close> and \<^verbatim>\<open>s.endswith(p)\<close>.\<close>

definition startswith :: "pystr \<Rightarrow> pystr \<Rightarrow> bool" where
  "startswith s p = (take (length p) s = p)"

definition endswith :: "pystr \<Rightarrow> pystr \<Rightarrow> bool" where
  "endswith s p = (length p \<le> length s \<and> drop (length s - length p) s = p)"

text \<open>
  \<^verbatim>\<open>str.isspace\<close> of one character, and \<^verbatim>\<open>s.strip()\<close>, which removes such
  characters at both ends.
\<close>

definition isspace :: "nat \<Rightarrow> bool" where
  "isspace c = ((9 \<le> c \<and> c \<le> 13) \<or> (28 \<le> c \<and> c \<le> 32) \<or> c = 133 \<or> c = 160 \<or> c = 5760
     \<or> (8192 \<le> c \<and> c \<le> 8202) \<or> c = 8232 \<or> c = 8233 \<or> c = 8239 \<or> c = 8287 \<or> c = 12288)"

definition strip :: "pystr \<Rightarrow> pystr" where
  "strip s = rev (dropWhile isspace (rev (dropWhile isspace s)))"

section \<open>src/main.py: configuration\<close>

text \<open>
  \<^verbatim>\<open>os.getenv(name, default)\<close>: the environment is a partial map from names to strings.
\<close>

definition getenv :: "(string \<rightharpoonup> pystr) \<Rightarrow> string \<Rightarrow> pystr \<Rightarrow> pystr" where
  "getenv env name dflt = (case env name of None \<Rightarrow> dflt | Some v \<Rightarrow> v)"

text \<open>
  Lines 23-30 of src/main.py. Python's \<^verbatim>\<open>int(str)\<close> is the parameter \<open>py_int\<close>
  (\<open>None\<close> when it raises ValueError). The three conversions run in order inside one
  \<^verbatim>\<open>try\<close>; the handler assigns all three defaults. The result is
  (POST_DELAY, CHECK_INTERVAL, MAX_HISTORY).
\<close>

definition load_params :: "(pystr \<Rightarrow> int option) \<Rightarrow> (string \<rightharpoonup> pystr) \<Rightarrow> int \<times> int \<times> int" where
  "load_params py_int env =
     (case py_int (getenv env ''POST_DELAY'' (py ''10'')) of
        None \<Rightarrow> (10, 300, 100)
      | Some post_delay \<Rightarrow>
          (case py_int (getenv env ''CHECK_INTERVAL'' (py ''300'')) of
             None \<Rightarrow> (10, 300, 100)
           | Some check_interval \<Rightarrow>
               (case py_int (getenv env ''MAX_HISTORY'' (py ''100'')) of
                  None \<Rightarrow> (10, 300, 100)
                | Some max_history \<Rightarrow> (post_delay, check_interval, max_history))))"

section \<open>The outside world\<close>

text \<open>
  What feedparser gives for one feed item. An attribute that \<^verbatim>\<open>hasattr\<close> does not find is
  \<open>None\<close>. \<open>published_parsed\<close> is absent (\<open>NoDate\<close>), present but not a usable time tuple
  (\<open>BadDate\<close>: building the \<^verbatim>\<open>datetime\<close> raises), or a time whose distance to now is
  \<^verbatim>\<open>(datetime.now() - entry_time).days\<close>. A media or enclosure item is a dict with optional
  keys \<^verbatim>\<open>type\<close> and \<^verbatim>\<open>url\<close> (\<^verbatim>\<open>href\<close> for an enclosure).
\<close>

datatype published = NoDate | BadDate | AgeDays int

record media =
  m_type :: "pystr option"
  m_url :: "pystr option"

record entry =
  published_parsed :: published
  e_title :: "pystr option"
  e_link :: "pystr option"
  e_description :: "pystr option"
  media_content :: "media list option"
  enclosures :: "media list option"

text \<open>A value decoded by \<^verbatim>\<open>json.loads\<close>; an object is the list of its items.\<close>

datatype jvalue =
    JNull
  | JBool bool
  | JNum int
  | JStr pystr
  | JArr "jvalue list"
  | JObj "(pystr \<times> jvalue) list"

text \<open>
  The calls that leave the process, in the order they are made. A send carries the link of
  the item it publishes, not the formatted text.
\<close>

datatype call =
    Parse pystr
  | Head pystr
  | SendPhoto pystr pystr
  | SendMessage pystr
  | ReadHistory
  | WriteHistory pystr
  | Sleep int
  | Yagpt pystr pystr
  | GenerateImage jvalue
  | Exists pystr
  | Remove pystr
  | Wait int

text \<open>
  The answer of the world to a call may depend on everything that happened before, so each
  answer is a function of the calls made so far. \<open>w_running\<close> and \<open>w_stop_set\<close> are the
  reads of the flags \<^verbatim>\<open>is_running\<close> and \<^verbatim>\<open>stop_event\<close>, which the command thread
  writes while the worker runs. \<open>w_order\<close> is the iteration order of a Python set, which the
  language leaves open. \<open>w_clean_html\<close> and \<open>w_sub_tags\<close> are the two \<^verbatim>\<open>re.sub\<close> calls,
  \<open>w_loads\<close> is \<^verbatim>\<open>json.loads\<close> (\<open>Raises\<close>: JSONDecodeError).
\<close>

record world =
  w_feed :: "call list \<Rightarrow> pystr \<Rightarrow> entry list outcome"
  w_head :: "call list \<Rightarrow> pystr \<Rightarrow> int outcome"
  w_send_photo :: "call list \<Rightarrow> pystr \<Rightarrow> pystr \<Rightarrow> unit outcome"
  w_send_message :: "call list \<Rightarrow> pystr \<Rightarrow> unit outcome"
  w_read_history :: "call list \<Rightarrow> pystr option outcome"
  w_write_history :: "call list \<Rightarrow> pystr \<Rightarrow> unit outcome"
  w_yagpt :: "call list \<Rightarrow> pystr \<Rightarrow> pystr \<Rightarrow> pystr outcome"
  w_generate_image :: "call list \<Rightarrow> jvalue \<Rightarrow> pystr option"
  w_exists :: "call list \<Rightarrow> pystr \<Rightarrow> bool"
  w_remove :: "call list \<Rightarrow> pystr \<Rightarrow> unit outcome"
  w_running :: "call list \<Rightarrow> bool"
  w_stop_set :: "call list \<Rightarrow> bool"
  w_order :: "call list \<Rightarrow> pystr set \<Rightarrow> pystr list"
  w_clean_html :: "pystr \<Rightarrow> pystr"
  w_sub_tags :: "pystr \<Rightarrow> pystr"
  w_loads :: "pystr \<Rightarrow> jvalue outcome"

text \<open>
  The configuration read from the environment: \<open>rss_urls\<close>, \<open>check_interval\<close> in both
  programs, \<open>post_delay\<close> and \<open>max_history\<close> in src/main.py, the YandexGPT settings in
  src/info\_sender/mainn.py.
\<close>

record config =
  rss_urls :: "pystr list"
  check_interval :: int
  post_delay :: int
  max_history :: int
  disable_yagpt :: bool
  yandex_api_key :: "pystr option"
  yandex_folder_id :: pystr

text \<open>
  The globals the worker changes: the set of links already sent (\<^verbatim>\<open>sent_news\<close> in
  src/main.py, \<^verbatim>\<open>sent_entries\<close> in src/info\_sender/mainn.py), the counters of the
  \<^verbatim>\<open>stats\<close> dict (src/main.py has the first two; the time stamps are left out), and
  \<^verbatim>\<open>is_running\<close>, which only the command functions write. \<open>trace\<close> records the calls
  made so far. Logging and the notifications to the administrator change none of these
  (\<^verbatim>\<open>send_admin_message\<close> catches every exception, and its result is not used); they are
  left out.
\<close>

record state =
  sent :: "pystr set"
  posts_sent :: nat
  errors :: nat
  yagpt_used :: nat
  yagpt_errors :: nat
  images_generated :: nat
  is_running :: bool
  trace :: "call list"

definition called :: "call \<Rightarrow> state \<Rightarrow> state" where
  "called c s = s\<lparr>trace := trace s @ [c]\<rparr>"

section \<open>src/info\_sender/mainn.py: enhancement and formatting\<close>

text \<open>Python's truth value and \<^verbatim>\<open>len\<close> of a decoded JSON value (\<open>None\<close>: TypeError).\<close>

fun truthy :: "jvalue \<Rightarrow> bool" where
  "truthy JNull = False"
| "truthy (JBool b) = b"
| "truthy (JNum n) = (n \<noteq> 0)"
| "truthy (JStr s) = (s \<noteq> [])"
| "truthy (JArr xs) = (xs \<noteq> [])"
| "truthy (JObj kvs) = (kvs \<noteq> [])"

fun py_len :: "jvalue \<Rightarrow> nat option" where
  "py_len (JStr s) = Some (length s)"
| "py_len (JArr xs) = Some (length xs)"
| "py_len (JObj kvs) = Some (length (remdups (map fst kvs)))"
| "py_len _ = None"

text \<open>
  \<^verbatim>\<open>s.find(c)\<close> and \<^verbatim>\<open>s.rfind(c)\<close> for one character, and \<^verbatim>\<open>s[a:b]\<close> for
  \<open>a\<close>, \<open>b\<close> that are not negative.
\<close>

definition str_find :: "pystr \<Rightarrow> nat \<Rightarrow> int" where
  "str_find s c = (if c \<in> set s then int (length (takeWhile (\<lambda>x. x \<noteq> c) s)) else - 1)"

definition str_rfind :: "pystr \<Rightarrow> nat \<Rightarrow> int" where
  "str_rfind s c =
     (if c \<in> set s then int (length s) - 1 - int (length (takeWhile (\<lambda>x. x \<noteq> c) (rev s)))
      else - 1)"

definition slice :: "int \<Rightarrow> int \<Rightarrow> 'a list \<Rightarrow> 'a list" where
  "slice a b s = take (nat b - nat a) (drop (nat a) s)"

definition yagpt_enabled :: "config \<Rightarrow> bool" where
  "yagpt_enabled cfg =
     (\<not> disable_yagpt cfg \<and> yandex_api_key cfg \<noteq> None \<and> yandex_api_key cfg \<noteq> Some []
      \<and> yandex_folder_id cfg \<noteq> [])"

record enhanced =
  en_title :: jvalue
  en_description :: jvalue

text \<open>
  \<^verbatim>\<open>enhance_with_yagpt\<close>, lines 353-434. \<open>w_yagpt\<close> is the request up to the extraction of
  the answer's text; every exception there takes the handlers that count an error. The
  description is cut to 3000 characters before the prompt is built, and it is this local
  variable that fills a missing \<^verbatim>\<open>description\<close> key.
\<close>

definition enhance_with_yagpt ::
  "world \<Rightarrow> config \<Rightarrow> pystr \<Rightarrow> pystr \<Rightarrow> state \<Rightarrow> enhanced option \<times> state" where
  "enhance_with_yagpt w cfg title description0 s =
     (if \<not> yagpt_enabled cfg then (None, s)
      else
        let description =
              (if length description0 > 3000 then take 3000 description0 @ py ''...''
               else description0);
            s1 = called (Yagpt title description) s
        in case w_yagpt w (trace s) title description of
             Raises \<Rightarrow> (None, s1\<lparr>yagpt_errors := yagpt_errors s1 + 1\<rparr>)
           | Returns result_text \<Rightarrow>
               let json_start = str_find result_text 123;
                   json_end = str_rfind result_text 125 + 1
               in if json_start = - 1 \<or> json_end = 0 then (None, s1)
                  else case w_loads w (slice json_start json_end result_text) of
                         Raises \<Rightarrow> (None, s1)
                       | Returns (JObj data) \<Rightarrow>
                           (Some \<lparr>en_title =
                                    (case map_of data (py ''title'') of
                                       None \<Rightarrow> JStr title | Some v \<Rightarrow> v),
                                  en_description =
                                    (case map_of data (py ''description'') of
                                       None \<Rightarrow> JStr description | Some v \<Rightarrow> v)\<rparr>, s1)
                       | Returns _ \<Rightarrow> (None, s1\<lparr>yagpt_errors := yagpt_errors s1 + 1\<rparr>))"

text \<open>
  The test of lines 587-589, with Python's order of evaluation: \<^verbatim>\<open>and\<close> stops at the
  first false operand, and \<^verbatim>\<open>len\<close> of a value without length raises.
\<close>

definition validate :: "jvalue \<Rightarrow> jvalue \<Rightarrow> bool outcome" where
  "validate new_title new_description =
     (if \<not> truthy new_title then Returns False
      else case py_len new_title of
        None \<Rightarrow> Raises
      | Some n \<Rightarrow>
          if \<not> n > 10 then Returns False
          else if \<not> truthy new_description then Returns False
          else case py_len new_description of
            None \<Rightarrow> Raises
          | Some m \<Rightarrow> Returns (m > 30 \<and> n < 120 \<and> m < 600))"

text \<open>
  Lines 601-602: \<^verbatim>\<open>description[:500] + "..."\<close> when the description is longer than 500.
  Only a string can be sliced and joined with a string.
\<close>

fun shorten :: "jvalue \<Rightarrow> jvalue outcome" where
  "shorten (JStr d) = Returns (JStr (if length d > 500 then take 500 d @ py ''...'' else d))"
| "shorten v =
     (case py_len v of
        None \<Rightarrow> Raises
      | Some n \<Rightarrow> if n > 500 then Raises else Returns v)"

text \<open>
  \<^verbatim>\<open>format_message\<close>, lines 565-620, in its parts: \<open>clean\<close> is the lambda of line 571,
  \<open>apply_enhancement\<close> the block of lines 578-598, which gives the title and the
  description to use, \<open>title_image\<close> the block of lines 604-616. The result of
  \<open>format_message\<close> stands for the pair \<^verbatim>\<open>(message, image_path)\<close>: the message is given
  by the title, the description and the link that the f-string puts together.
  \<^verbatim>\<open>generate_image\<close> catches every exception and counts an image when it returns a path.
\<close>

definition clean :: "world \<Rightarrow> pystr \<Rightarrow> pystr" where
  "clean w text = (if text \<noteq> [] then w_sub_tags w text else [])"

definition apply_enhancement ::
  "world \<Rightarrow> config \<Rightarrow> pystr \<Rightarrow> pystr \<Rightarrow> state \<Rightarrow> jvalue \<times> jvalue \<times> state" where
  "apply_enhancement w cfg title description s =
     (if yagpt_enabled cfg then
        (case enhance_with_yagpt w cfg title description s of
           (None, s') \<Rightarrow> (JStr title, JStr description, s')
         | (Some en, s') \<Rightarrow>
             (case validate (en_title en) (en_description en) of
                Raises \<Rightarrow>
                  (JStr title, JStr description, s'\<lparr>yagpt_errors := yagpt_errors s' + 1\<rparr>)
              | Returns ok \<Rightarrow>
                  if ok then
                    (en_title en, en_description en, s'\<lparr>yagpt_used := yagpt_used s' + 1\<rparr>)
                  else (JStr title, JStr description, s')))
      else (JStr title, JStr description, s))"

definition title_image :: "world \<Rightarrow> jvalue \<Rightarrow> pystr \<Rightarrow> state \<Rightarrow> pystr option \<times> state" where
  "title_image w title original_title s =
     (let image_title = (if truthy title then title else JStr original_title)
      in if truthy image_title then
           let image_path = w_generate_image w (trace s) image_title;
               s1 = called (GenerateImage image_title) s
           in (image_path,
               if image_path \<noteq> None
               then s1\<lparr>images_generated := images_generated s1 + 1\<rparr> else s1)
         else (None, s))"

record formatted =
  f_title :: jvalue
  f_description :: jvalue
  f_link :: pystr
  f_image_path :: "pystr option"

text \<open>Lines 566-573: the title, description and link of the entry, cleaned.\<close>

definition original_title :: "world \<Rightarrow> entry \<Rightarrow> pystr" where
  "original_title w e = clean w (case e_title e of None \<Rightarrow> py ''No title'' | Some t \<Rightarrow> t)"

definition original_description :: "world \<Rightarrow> entry \<Rightarrow> pystr" where
  "original_description w e = clean w (case e_description e of None \<Rightarrow> [] | Some d \<Rightarrow> d)"

definition format_message ::
  "world \<Rightarrow> config \<Rightarrow> entry \<Rightarrow> state \<Rightarrow> formatted outcome \<times> state" where
  "format_message w cfg e s =
     (let title = original_title w e;
          description = original_description w e;
          link = (case e_link e of None \<Rightarrow> [] | Some l \<Rightarrow> l)
      in case apply_enhancement w cfg title description s of
           (t, d, s1) \<Rightarrow>
             (case shorten d of
                Raises \<Rightarrow> (Raises, s1)
              | Returns d' \<Rightarrow>
                  (case title_image w t title s1 of
                     (image_path, s2) \<Rightarrow>
                       (Returns \<lparr>f_title = t, f_description = d', f_link = link,
                                 f_image_path = image_path\<rparr>, s2))))"

text \<open>
  The acceptance test in the words of the specification: the rewritten title has a length
  strictly between 10 and 120 and the rewritten body a length strictly between 30 and 600.
\<close>

definition spec_accepts :: "jvalue \<Rightarrow> jvalue \<Rightarrow> bool" where
  "spec_accepts new_title new_description =
     (case (py_len new_title, py_len new_description) of
        (Some n, Some m) \<Rightarrow> 10 < n \<and> n < 120 \<and> 30 < m \<and> m < 600
      | _ \<Rightarrow> False)"

section \<open>Concrete inputs\<close>

text \<open>
  A world in which every feed is empty and every call succeeds, a configuration and a
  start state; the examples below change them where they need to.
\<close>

definition test_world :: world where
  "test_world =
     \<lparr>w_feed = (\<lambda>_ _. Returns []),
      w_head = (\<lambda>_ _. Returns 200),
      w_send_photo = (\<lambda>_ _ _. Returns ()),
      w_send_message = (\<lambda>_ _. Returns ()),
      w_read_history = (\<lambda>_. Returns None),
      w_write_history = (\<lambda>_ _. Returns ()),
      w_yagpt = (\<lambda>_ _ _. Raises),
      w_generate_image = (\<lambda>_ _. None),
      w_exists = (\<lambda>_ _. True),
      w_remove = (\<lambda>_ _. Returns ()),
      w_running = (\<lambda>_. True),
      w_stop_set = (\<lambda>_. False),
      w_order = (\<lambda>_ S. filter (\<lambda>x. x \<in> S) [py ''a'', py ''b'', py ''c'', py ''d'']),
      w_clean_html = (\<lambda>t. t),
      w_sub_tags = (\<lambda>t. t),
      w_loads = (\<lambda>_. Raises)\<rparr>"

definition test_config :: config where
  "test_config =
     \<lparr>rss_urls = [py ''u1'', py ''u2''], check_interval = 2, post_delay = 0, max_history = 2,
      disable_yagpt = False, yandex_api_key = Some (py ''key''), yandex_folder_id = py ''folder''\<rparr>"

definition init_state :: state where
  "init_state =
     \<lparr>sent = {}, posts_sent = 0, errors = 0, yagpt_used = 0, yagpt_errors = 0,
      images_generated = 0, is_running = False, trace = []\<rparr>"

definition test_entry :: "string \<Rightarrow> entry" where
  "test_entry l =
     \<lparr>published_parsed = AgeDays 0, e_title = Some (py ''Title''),
      e_link = Some (py l), e_description = Some (py ''Body''),
      media_content = None, enclosures = None\<rparr>"

section \<open>Helper facts\<close>

lemma py_eq_iff: "py a = py b \<longleftrightarrow> a = b"
  unfolding py_def by (simp add: inj_map_eq_map inj_on_def)

section \<open>Configuration: one bad value resets all three\<close>

text \<open>
  C9. In src/main.py, if any one of POST_DELAY, CHECK_INTERVAL or MAX_HISTORY holds a string
  that \<^verbatim>\<open>int\<close> rejects, all three parameters take their defaults (10, 300, 100),
  also those whose own value was a valid integer.
\<close>

theorem load_params_any_bad_resets_all:
  assumes "py_int (getenv env ''POST_DELAY'' (py ''10'')) = None
         \<or> py_int (getenv env ''CHECK_INTERVAL'' (py ''300'')) = None
         \<or> py_int (getenv env ''MAX_HISTORY'' (py ''100'')) = None"
  shows "load_params py_int env = (10, 300, 100)"
  using assms by (auto simp: load_params_def split: option.splits)

text \<open>
  POST_DELAY=5 and MAX_HISTORY=50 are valid, CHECK_INTERVAL=abc is not: POST_DELAY is 10 and
  MAX_HISTORY is 100 all the same.
\<close>

theorem load_params_any_bad_resets_all_witness:
  "(\<lambda>s. if s = py ''5'' then Some (5::int) else if s = py ''50'' then Some 50 else None)
     (getenv [''POST_DELAY'' \<mapsto> py ''5'', ''CHECK_INTERVAL'' \<mapsto> py ''abc'',
              ''MAX_HISTORY'' \<mapsto> py ''50''] ''CHECK_INTERVAL'' (py ''300'')) = None
   \<and> load_params (\<lambda>s. if s = py ''5'' then Some 5 else if s = py ''50'' then Some 50 else None)
        [''POST_DELAY'' \<mapsto> py ''5'', ''CHECK_INTERVAL'' \<mapsto> py ''abc'',
         ''MAX_HISTORY'' \<mapsto> py ''50''] = (10, 300, 100)"
proof -
  let ?p = "\<lambda>s. if s = py ''5'' then Some (5::int) else if s = py ''50'' then Some 50 else None"
  let ?e = "[''POST_DELAY'' \<mapsto> py ''5'', ''CHECK_INTERVAL'' \<mapsto> py ''abc'',
             ''MAX_HISTORY'' \<mapsto> py ''50'']"
  have h: "?p (getenv ?e ''CHECK_INTERVAL'' (py ''300'')) = None"
    by (simp add: getenv_def py_eq_iff)
  from h load_params_any_bad_resets_all [of ?p ?e] show ?thesis by blast
qed

end
